theory Spec2Isabelle
  imports Main
begin

section \<open>Data model of modules/consensus/subscribe.go\<close>

text \<open>
  The file under study is the change-notification part of the consensus set. It reads
  three packages whose declarations are not part of the sources at hand (\<open>types\<close>,
  \<open>modules\<close>, \<open>build\<close>) and three database accessors (\<open>getBlockMap\<close>,
  \<open>getPath\<close>, \<open>blockHeight\<close>). What the code does with them fixes the shape
  used here; everything else about them is a parameter.
\<close>

type_synonym BlockID = nat

type_synonym BlockHeight = nat

text \<open>
  A \<open>types.Block\<close> is opaque to this file: it is copied around and asked for its
  \<open>ID()\<close>. The block type is the type variable \<open>'b\<close> and \<open>ID\<close> is a parameter of
  the one function that calls it.
\<close>

text \<open>
  Modelled from the spec: \<open>modules.DiffDirection\<close> and its constants \<open>DiffApply\<close>
  and \<open>DiffRevert\<close> are declared outside the file under study. A direction is one of
  Apply and Revert; the code negates a direction with \<open>!\<close>, so the type is boolean
  and the two constants are its two values.
\<close>

type_synonym DiffDirection = bool

definition DiffApply :: DiffDirection where
  "DiffApply = True"

definition DiffRevert :: DiffDirection where
  "DiffRevert = False"

text \<open>
  The five diff structs. The code reads and writes only their \<open>Direction\<close> field; the
  remaining fields travel unchanged and are kept as one opaque component each.
\<close>

record SiacoinOutputDiff =
  scod_Direction :: DiffDirection
  scod_fields :: nat

record FileContractDiff =
  fcd_Direction :: DiffDirection
  fcd_fields :: nat

record SiafundOutputDiff =
  sfod_Direction :: DiffDirection
  sfod_fields :: nat

record DelayedSiacoinOutputDiff =
  dscod_Direction :: DiffDirection
  dscod_fields :: nat

record SiafundPoolDiff =
  sfpd_Direction :: DiffDirection
  sfpd_fields :: nat

text \<open>The record \<open>getBlockMap\<close> yields: the block and the diffs stored with it.\<close>

record 'b processedBlock =
  pb_Block :: 'b
  pb_SiacoinOutputDiffs :: "SiacoinOutputDiff list"
  pb_FileContractDiffs :: "FileContractDiff list"
  pb_SiafundOutputDiffs :: "SiafundOutputDiff list"
  pb_DelayedSiacoinOutputDiffs :: "DelayedSiacoinOutputDiff list"
  pb_SiafundPoolDiffs :: "SiafundPoolDiff list"

record 'b ConsensusChange =
  RevertedBlocks :: "'b list"
  AppliedBlocks :: "'b list"
  SiacoinOutputDiffs :: "SiacoinOutputDiff list"
  FileContractDiffs :: "FileContractDiff list"
  SiafundOutputDiffs :: "SiafundOutputDiff list"
  DelayedSiacoinOutputDiffs :: "DelayedSiacoinOutputDiff list"
  SiafundPoolDiffs :: "SiafundPoolDiff list"

text \<open>The zero value of \<open>modules.ConsensusChange\<close>: every slice is nil.\<close>

definition zeroConsensusChange :: "'b ConsensusChange" where
  "zeroConsensusChange = \<lparr> RevertedBlocks = [], AppliedBlocks = [],
     SiacoinOutputDiffs = [], FileContractDiffs = [], SiafundOutputDiffs = [],
     DelayedSiacoinOutputDiffs = [], SiafundPoolDiffs = [] \<rparr>"

record changeEntry =
  revertedBlocks :: "BlockID list"
  appliedBlocks :: "BlockID list"

text \<open>
  A Go \<open>error\<close> value is represented by its message. A panic carries either an error
  (\<open>panic(err)\<close>) or is the runtime's nil-pointer dereference.
\<close>

type_synonym error = string

datatype panic = PanicError error | NilDereference

text \<open>
  The read transaction \<open>tx\<close>, seen through the three accessors the code calls on it.
  Each accessor returns what its Go signature returns: \<open>getBlockMap\<close> a pointer to a
  record (\<open>None\<close> is nil) together with an error (\<open>None\<close> is nil), \<open>getPath\<close> a block
  ID together with an error. No relation between the two components is assumed.
\<close>

record 'b Tx =
  getBlockMap :: "BlockID \<Rightarrow> 'b processedBlock option \<times> error option"
  getPath :: "BlockHeight \<Rightarrow> BlockID \<times> error option"
  blockHeight :: BlockHeight

text \<open>
  Subscribers are external objects; a subscriber is represented by a name, and every
  callback made on one is recorded as a call, in the order the calls are made.
\<close>

type_synonym subscriber = nat

datatype 'b call =
    ProcessConsensusChange subscriber "'b ConsensusChange"
  | ProcessConsensusDigest subscriber "BlockID list" "BlockID list"

text \<open>
  The fields of \<open>ConsensusSet\<close> this file uses. \<open>db\<close> is the database as one
  \<open>db.View\<close> sees it: the snapshot handed to the closure.
\<close>

record 'b ConsensusSet =
  changeLog :: "changeEntry list"
  subscribers :: "subscriber list"
  digestSubscribers :: "subscriber list"
  db :: "'b Tx"

section \<open>computeConsensusChange\<close>

text \<open>
  \<open>for i := len(ds) - 1; i >= 0; i-- { d := ds[i]; <f d>; out = append(out, d) }\<close>.
  The third argument is \<open>i + 1\<close>; the loop starts with \<open>length ds\<close>.
\<close>

fun downwardAppend :: "('a \<Rightarrow> 'a) \<Rightarrow> 'a list \<Rightarrow> nat \<Rightarrow> 'a list \<Rightarrow> 'a list" where
  "downwardAppend f ds 0 out = out"
| "downwardAppend f ds (Suc i) out = downwardAppend f ds i (out @ [f (ds ! i)])"

text \<open>
  \<open>for _, d := range ds { out = append(out, <f d>) }\<close>: the loops that copy diffs
  (\<open>f\<close> the identity), collect block IDs and call subscribers one after the other.
\<close>

primrec rangeAppend :: "('a \<Rightarrow> 'c) \<Rightarrow> 'a list \<Rightarrow> 'c list \<Rightarrow> 'c list" where
  "rangeAppend f [] out = out"
| "rangeAppend f (d # ds) out = rangeAppend f ds (out @ [f d])"

text \<open>The body of the loop over the reverted blocks, after the lookup (lines 36-61).\<close>

definition revertedBody :: "'b processedBlock \<Rightarrow> 'b ConsensusChange \<Rightarrow> 'b ConsensusChange" where
  "revertedBody revertedBlock cc = cc\<lparr>
     RevertedBlocks := RevertedBlocks cc @ [pb_Block revertedBlock],
     SiacoinOutputDiffs :=
       downwardAppend (\<lambda>scod. scod\<lparr>scod_Direction := \<not> scod_Direction scod\<rparr>)
         (pb_SiacoinOutputDiffs revertedBlock)
         (length (pb_SiacoinOutputDiffs revertedBlock)) (SiacoinOutputDiffs cc),
     FileContractDiffs :=
       downwardAppend (\<lambda>fcd. fcd\<lparr>fcd_Direction := \<not> fcd_Direction fcd\<rparr>)
         (pb_FileContractDiffs revertedBlock)
         (length (pb_FileContractDiffs revertedBlock)) (FileContractDiffs cc),
     SiafundOutputDiffs :=
       downwardAppend (\<lambda>sfod. sfod\<lparr>sfod_Direction := \<not> sfod_Direction sfod\<rparr>)
         (pb_SiafundOutputDiffs revertedBlock)
         (length (pb_SiafundOutputDiffs revertedBlock)) (SiafundOutputDiffs cc),
     DelayedSiacoinOutputDiffs :=
       downwardAppend (\<lambda>dscod. dscod\<lparr>dscod_Direction := \<not> dscod_Direction dscod\<rparr>)
         (pb_DelayedSiacoinOutputDiffs revertedBlock)
         (length (pb_DelayedSiacoinOutputDiffs revertedBlock)) (DelayedSiacoinOutputDiffs cc),
     SiafundPoolDiffs :=
       downwardAppend (\<lambda>sfpd. sfpd\<lparr>sfpd_Direction := DiffRevert\<rparr>)
         (pb_SiafundPoolDiffs revertedBlock)
         (length (pb_SiafundPoolDiffs revertedBlock)) (SiafundPoolDiffs cc) \<rparr>"

text \<open>The body of the loop over the applied blocks, after the lookup (lines 69-84).\<close>

definition appliedBody :: "'b processedBlock \<Rightarrow> 'b ConsensusChange \<Rightarrow> 'b ConsensusChange" where
  "appliedBody appliedBlock cc = cc\<lparr>
     AppliedBlocks := AppliedBlocks cc @ [pb_Block appliedBlock],
     SiacoinOutputDiffs :=
       rangeAppend (\<lambda>scod. scod) (pb_SiacoinOutputDiffs appliedBlock) (SiacoinOutputDiffs cc),
     FileContractDiffs :=
       rangeAppend (\<lambda>fcd. fcd) (pb_FileContractDiffs appliedBlock) (FileContractDiffs cc),
     SiafundOutputDiffs :=
       rangeAppend (\<lambda>sfod. sfod) (pb_SiafundOutputDiffs appliedBlock) (SiafundOutputDiffs cc),
     DelayedSiacoinOutputDiffs :=
       rangeAppend (\<lambda>dscod. dscod) (pb_DelayedSiacoinOutputDiffs appliedBlock) (DelayedSiacoinOutputDiffs cc),
     SiafundPoolDiffs :=
       rangeAppend (\<lambda>sfpd. sfpd) (pb_SiafundPoolDiffs appliedBlock) (SiafundPoolDiffs cc) \<rparr>"

text \<open>
  One loop over block IDs (lines 28-62 with \<open>revertedBody\<close>, lines 63-85 with
  \<open>appliedBody\<close>): look the block up, panic on a lookup error when \<open>build.DEBUG\<close> is
  set, then read through the returned pointer. Reading through a nil pointer is Go's
  runtime panic. The \<open>err\<close> of the lookup is a variable of the loop body; it is never
  the function's result.
\<close>

fun blockLoop :: "('b processedBlock \<Rightarrow> 'b ConsensusChange \<Rightarrow> 'b ConsensusChange) \<Rightarrow> bool \<Rightarrow>
    'b Tx \<Rightarrow> BlockID list \<Rightarrow> 'b ConsensusChange \<Rightarrow> panic + 'b ConsensusChange" where
  "blockLoop body DEBUG tx [] cc = Inr cc"
| "blockLoop body DEBUG tx (blockID # ids) cc =
     (case getBlockMap tx blockID of (block, err) \<Rightarrow>
        if DEBUG \<and> err \<noteq> None then Inl (PanicError (the err))
        else (case block of
                None \<Rightarrow> Inl NilDereference
              | Some pb \<Rightarrow> blockLoop body DEBUG tx ids (body pb cc)))"

text \<open>
  The result is the pair of named results \<open>(cc, err)\<close>, or a panic. \<open>i\<close> is a Go
  \<open>int\<close>; no arithmetic is done on it.
\<close>

definition computeConsensusChange :: "bool \<Rightarrow> 'b ConsensusSet \<Rightarrow> 'b Tx \<Rightarrow> int \<Rightarrow>
    panic + ('b ConsensusChange \<times> error option)" where
  "computeConsensusChange DEBUG cs tx i =
     (if i < 0 \<or> i \<ge> int (length (changeLog cs))
      then Inr (zeroConsensusChange, Some ''bounds error when querying changelog'')
      else (case blockLoop revertedBody DEBUG tx (revertedBlocks (changeLog cs ! nat i))
                   zeroConsensusChange of
              Inl p \<Rightarrow> Inl p
            | Inr cc \<Rightarrow>
               (case blockLoop appliedBody DEBUG tx (appliedBlocks (changeLog cs ! nat i)) cc of
                  Inl p \<Rightarrow> Inl p
                | Inr cc' \<Rightarrow> Inr (cc', None))))"

section \<open>Notification, query and subscription\<close>

text \<open>
  \<open>readlockUpdateSubscribers\<close> (lines 93-119). The result is the sequence of callbacks
  made, and the panic that ended the call if one did. \<open>ID\<close> is \<open>types.Block.ID\<close>.
  The closure assigns both \<open>cc\<close> and \<open>err\<close>; an error in a release build leaves the
  returned \<open>cc\<close> in use.
\<close>

definition readlockUpdateSubscribers :: "bool \<Rightarrow> ('b \<Rightarrow> BlockID) \<Rightarrow> 'b ConsensusSet \<Rightarrow>
    changeEntry \<Rightarrow> 'b call list \<times> panic option" where
  "readlockUpdateSubscribers DEBUG ID cs ce =
     (case computeConsensusChange DEBUG cs (db cs) (int (length (changeLog cs)) - 1) of
        Inl p \<Rightarrow> ([], Some p)
      | Inr (cc, err) \<Rightarrow>
          if err \<noteq> None \<and> DEBUG then ([], Some (PanicError (the err)))
          else
            (let calls = rangeAppend (\<lambda>subscriber. ProcessConsensusChange subscriber cc)
                           (subscribers cs) [];
                 revertedIDs = rangeAppend (\<lambda>rb. ID rb) (RevertedBlocks cc) [];
                 appliedIDs = rangeAppend (\<lambda>ab. ID ab) (AppliedBlocks cc) []
             in (rangeAppend (\<lambda>ds. ProcessConsensusDigest ds revertedIDs appliedIDs)
                   (digestSubscribers cs) calls, None)))"

text \<open>The public query \<open>ConsensusChange\<close> (lines 125-137).\<close>

definition ConsensusChange :: "bool \<Rightarrow> 'b ConsensusSet \<Rightarrow> int \<Rightarrow>
    panic + ('b ConsensusChange \<times> error option)" where
  "ConsensusChange DEBUG cs i =
     (case computeConsensusChange DEBUG cs (db cs) i of
        Inl p \<Rightarrow> Inl p
      | Inr (cc, err) \<Rightarrow>
          if err \<noteq> None then Inr (zeroConsensusChange, err) else Inr (cc, None))"

text \<open>
  The loop of \<open>ConsensusSetDigestSubscribe\<close> (lines 155-161):
  \<open>for i := types.BlockHeight(0); i <= height; i++\<close>, leaving with the error of
  \<open>getPath\<close> if there is one. Heights are natural numbers here.
\<close>

function pathLoop :: "'b Tx \<Rightarrow> BlockHeight \<Rightarrow> BlockHeight \<Rightarrow> BlockID list \<Rightarrow>
    error + BlockID list" where
  "pathLoop tx height i currentPath =
     (if i \<le> height
      then (case getPath tx i of (blockID, err) \<Rightarrow>
              if err \<noteq> None then Inl (the err)
              else pathLoop tx height (Suc i) (currentPath @ [blockID]))
      else Inr currentPath)"
  by pat_completeness auto
termination
  by (relation "measure (\<lambda>(tx, height, i, currentPath). Suc height - i)") auto

declare pathLoop.simps [simp del]

text \<open>
  \<open>ConsensusSetDigestSubscribe\<close> (lines 142-168): the consensus set after the call, the
  callbacks made, and the panic if any.
\<close>

definition ConsensusSetDigestSubscribe :: "bool \<Rightarrow> 'b ConsensusSet \<Rightarrow> subscriber \<Rightarrow>
    'b ConsensusSet \<times> 'b call list \<times> panic option" where
  "ConsensusSetDigestSubscribe DEBUG cs subscriber =
     (let cs' = cs\<lparr>digestSubscribers := digestSubscribers cs @ [subscriber]\<rparr>
      in (case pathLoop (db cs') (blockHeight (db cs')) 0 [] of
            Inl err \<Rightarrow> (cs', [], if DEBUG then Some (PanicError err) else None)
          | Inr currentPath \<Rightarrow>
              (cs', [ProcessConsensusDigest subscriber [] currentPath], None)))"

text \<open>
  The loop of \<open>ConsensusSetSubscribe\<close> (lines 179-185), \<open>for i := range cs.changeLog\<close>,
  over the indices still to visit.
\<close>

fun backfillLoop :: "bool \<Rightarrow> 'b ConsensusSet \<Rightarrow> 'b Tx \<Rightarrow> subscriber \<Rightarrow> nat list \<Rightarrow>
    'b call list \<Rightarrow> 'b call list \<times> panic option" where
  "backfillLoop DEBUG cs tx subscriber [] calls = (calls, None)"
| "backfillLoop DEBUG cs tx subscriber (i # is) calls =
     (case computeConsensusChange DEBUG cs tx (int i) of
        Inl p \<Rightarrow> (calls, Some p)
      | Inr (cc, err) \<Rightarrow>
          if err \<noteq> None \<and> DEBUG then (calls, Some (PanicError (the err)))
          else backfillLoop DEBUG cs tx subscriber is
                 (calls @ [ProcessConsensusChange subscriber cc]))"

text \<open>\<open>ConsensusSetSubscribe\<close> (lines 172-191).\<close>

definition ConsensusSetSubscribe :: "bool \<Rightarrow> 'b ConsensusSet \<Rightarrow> subscriber \<Rightarrow>
    'b ConsensusSet \<times> 'b call list \<times> panic option" where
  "ConsensusSetSubscribe DEBUG cs subscriber =
     (let cs' = cs\<lparr>subscribers := subscribers cs @ [subscriber]\<rparr>
      in (case backfillLoop DEBUG cs' (db cs') subscriber [0..<length (changeLog cs')] [] of
            (calls, p) \<Rightarrow> (cs', calls, p)))"

section \<open>Vocabulary of the properties\<close>

text \<open>Inverting a direction, as the description of the replay puts it: Apply becomes
  Revert and Revert becomes Apply.\<close>

definition invertDirection :: "DiffDirection \<Rightarrow> DiffDirection" where
  "invertDirection d = (if d = DiffApply then DiffRevert else DiffApply)"

text \<open>The records a run of the loop reads through, in the order of the IDs.\<close>

definition fetchedBlocks :: "'b Tx \<Rightarrow> BlockID list \<Rightarrow> 'b processedBlock list" where
  "fetchedBlocks tx ids = map (\<lambda>blockID. the (fst (getBlockMap tx blockID))) ids"

text \<open>Every ID of the list is in the store: the lookup gives a record and no error.\<close>

definition allPresent :: "'b Tx \<Rightarrow> BlockID list \<Rightarrow> bool" where
  "allPresent tx ids = list_all (\<lambda>blockID. fst (getBlockMap tx blockID) \<noteq> None \<and>
     snd (getBlockMap tx blockID) = None) ids"


text \<open>How a call of \<open>computeConsensusChange\<close> or \<open>ConsensusChange\<close> ends: with a
  non-nil error, or with a change and a nil error. A panic is neither.\<close>

definition returnsError :: "panic + ('b ConsensusChange \<times> error option) \<Rightarrow> bool" where
  "returnsError r = (case r of Inl p \<Rightarrow> False | Inr (cc, err) \<Rightarrow> err \<noteq> None)"

definition succeeds :: "panic + ('b ConsensusChange \<times> error option) \<Rightarrow> bool" where
  "succeeds r = (case r of Inl p \<Rightarrow> False | Inr (cc, err) \<Rightarrow> err = None)"

text \<open>The change \<open>computeConsensusChange\<close> returns at an index of the log, if it
  returns.\<close>

definition changeAt :: "bool \<Rightarrow> 'b ConsensusSet \<Rightarrow> nat \<Rightarrow> 'b ConsensusChange option" where
  "changeAt DEBUG cs i =
     (case computeConsensusChange DEBUG cs (db cs) (int i) of
        Inl p \<Rightarrow> None
      | Inr (cc, err) \<Rightarrow> Some cc)"

section \<open>A small chain used to run the definitions\<close>

text \<open>
  Blocks are numbers; block \<open>n\<close> is stored under ID \<open>n\<close> for \<open>n \<le> 4\<close> and its
  \<open>ID()\<close> is \<open>n\<close>. The log holds two extensions and one reorganisation that reverts
  block 2 and applies blocks 3 and 4.
\<close>

definition exampleBlock :: "nat \<Rightarrow> nat processedBlock" where
  "exampleBlock n = \<lparr> pb_Block = n,
     pb_SiacoinOutputDiffs = [\<lparr>scod_Direction = True, scod_fields = 10 * n\<rparr>,
                              \<lparr>scod_Direction = False, scod_fields = 10 * n + 1\<rparr>],
     pb_FileContractDiffs = [\<lparr>fcd_Direction = True, fcd_fields = 20 * n\<rparr>],
     pb_SiafundOutputDiffs = [\<lparr>sfod_Direction = False, sfod_fields = 30 * n\<rparr>],
     pb_DelayedSiacoinOutputDiffs = [\<lparr>dscod_Direction = True, dscod_fields = 40 * n\<rparr>],
     pb_SiafundPoolDiffs = [\<lparr>sfpd_Direction = True, sfpd_fields = 50 * n\<rparr>,
                            \<lparr>sfpd_Direction = False, sfpd_fields = 50 * n + 1\<rparr>] \<rparr>"

definition exampleTx :: "nat Tx" where
  "exampleTx = \<lparr>
     getBlockMap = (\<lambda>blockID. if blockID \<le> 4 then (Some (exampleBlock blockID), None)
                               else (None, Some ''nil item'')),
     getPath = (\<lambda>h. if h = 0 then (0, None) else if h = 1 then (1, None)
                     else if h = 2 then (3, None) else if h = 3 then (4, None)
                     else (0, Some ''nil item'')),
     blockHeight = 3 \<rparr>"

definition exampleSet :: "nat ConsensusSet" where
  "exampleSet = \<lparr>
     changeLog = [\<lparr>revertedBlocks = [], appliedBlocks = [1]\<rparr>,
                  \<lparr>revertedBlocks = [], appliedBlocks = [2]\<rparr>,
                  \<lparr>revertedBlocks = [2], appliedBlocks = [3, 4]\<rparr>],
     subscribers = [7, 8],
     digestSubscribers = [9],
     db = exampleTx \<rparr>"

text \<open>The change of the reorganisation entry (index 2), written out.\<close>

definition exampleChange :: "nat ConsensusChange" where
  "exampleChange = \<lparr> RevertedBlocks = [2], AppliedBlocks = [3, 4],
     SiacoinOutputDiffs =
       [\<lparr>scod_Direction = True, scod_fields = 21\<rparr>, \<lparr>scod_Direction = False, scod_fields = 20\<rparr>,
        \<lparr>scod_Direction = True, scod_fields = 30\<rparr>, \<lparr>scod_Direction = False, scod_fields = 31\<rparr>,
        \<lparr>scod_Direction = True, scod_fields = 40\<rparr>, \<lparr>scod_Direction = False, scod_fields = 41\<rparr>],
     FileContractDiffs =
       [\<lparr>fcd_Direction = False, fcd_fields = 40\<rparr>, \<lparr>fcd_Direction = True, fcd_fields = 60\<rparr>,
        \<lparr>fcd_Direction = True, fcd_fields = 80\<rparr>],
     SiafundOutputDiffs =
       [\<lparr>sfod_Direction = True, sfod_fields = 60\<rparr>, \<lparr>sfod_Direction = False, sfod_fields = 90\<rparr>,
        \<lparr>sfod_Direction = False, sfod_fields = 120\<rparr>],
     DelayedSiacoinOutputDiffs =
       [\<lparr>dscod_Direction = False, dscod_fields = 80\<rparr>, \<lparr>dscod_Direction = True, dscod_fields = 120\<rparr>,
        \<lparr>dscod_Direction = True, dscod_fields = 160\<rparr>],
     SiafundPoolDiffs =
       [\<lparr>sfpd_Direction = False, sfpd_fields = 101\<rparr>, \<lparr>sfpd_Direction = False, sfpd_fields = 100\<rparr>,
        \<lparr>sfpd_Direction = True, sfpd_fields = 150\<rparr>, \<lparr>sfpd_Direction = False, sfpd_fields = 151\<rparr>,
        \<lparr>sfpd_Direction = True, sfpd_fields = 200\<rparr>, \<lparr>sfpd_Direction = False, sfpd_fields = 201\<rparr>] \<rparr>"

text \<open>
  A second store that agrees with the first on the IDs the first one holds and differs
  on every other ID.
\<close>

definition zeroBlock :: "nat processedBlock" where
  "zeroBlock = \<lparr> pb_Block = 0, pb_SiacoinOutputDiffs = [], pb_FileContractDiffs = [],
     pb_SiafundOutputDiffs = [], pb_DelayedSiacoinOutputDiffs = [], pb_SiafundPoolDiffs = [] \<rparr>"

definition lenientTx :: "nat Tx" where
  "lenientTx = exampleTx\<lparr>getBlockMap :=
     (\<lambda>blockID. if blockID \<le> 4 then (Some (exampleBlock blockID), None)
                  else (Some zeroBlock, Some ''nil item''))\<rparr>"


section \<open>The loops in closed form\<close>

lemma downwardAppend_take:
  "n \<le> length ds \<Longrightarrow> downwardAppend f ds n out = out @ map f (rev (take n ds))"
proof (induction n arbitrary: out)
  case 0
  show ?case by simp
next
  case (Suc n)
  from Suc.prems have lt: "n < length ds" by simp
  have "take (Suc n) ds = take n ds @ [ds ! n]"
    using lt by (rule take_Suc_conv_app_nth)
  with Suc.IH [of "out @ [f (ds ! n)]"] lt show ?case by simp
qed

lemma downwardAppend_rev:
  "downwardAppend f ds (length ds) out = out @ map f (rev ds)"
  by (simp add: downwardAppend_take)

lemma rangeAppend_map: "rangeAppend f ds out = out @ map f ds"
  by (induction ds arbitrary: out) simp_all

lemma revertedBody_fields:
  "RevertedBlocks (revertedBody pb cc) = RevertedBlocks cc @ [pb_Block pb]"
  "AppliedBlocks (revertedBody pb cc) = AppliedBlocks cc"
  "SiacoinOutputDiffs (revertedBody pb cc) = SiacoinOutputDiffs cc @
     map (\<lambda>scod. scod\<lparr>scod_Direction := \<not> scod_Direction scod\<rparr>) (rev (pb_SiacoinOutputDiffs pb))"
  "FileContractDiffs (revertedBody pb cc) = FileContractDiffs cc @
     map (\<lambda>fcd. fcd\<lparr>fcd_Direction := \<not> fcd_Direction fcd\<rparr>) (rev (pb_FileContractDiffs pb))"
  "SiafundOutputDiffs (revertedBody pb cc) = SiafundOutputDiffs cc @
     map (\<lambda>sfod. sfod\<lparr>sfod_Direction := \<not> sfod_Direction sfod\<rparr>) (rev (pb_SiafundOutputDiffs pb))"
  "DelayedSiacoinOutputDiffs (revertedBody pb cc) = DelayedSiacoinOutputDiffs cc @
     map (\<lambda>dscod. dscod\<lparr>dscod_Direction := \<not> dscod_Direction dscod\<rparr>)
       (rev (pb_DelayedSiacoinOutputDiffs pb))"
  "SiafundPoolDiffs (revertedBody pb cc) = SiafundPoolDiffs cc @
     map (\<lambda>sfpd. sfpd\<lparr>sfpd_Direction := DiffRevert\<rparr>) (rev (pb_SiafundPoolDiffs pb))"
  by (simp_all add: revertedBody_def downwardAppend_rev)

lemma appliedBody_fields:
  "RevertedBlocks (appliedBody pb cc) = RevertedBlocks cc"
  "AppliedBlocks (appliedBody pb cc) = AppliedBlocks cc @ [pb_Block pb]"
  "SiacoinOutputDiffs (appliedBody pb cc) = SiacoinOutputDiffs cc @ pb_SiacoinOutputDiffs pb"
  "FileContractDiffs (appliedBody pb cc) = FileContractDiffs cc @ pb_FileContractDiffs pb"
  "SiafundOutputDiffs (appliedBody pb cc) = SiafundOutputDiffs cc @ pb_SiafundOutputDiffs pb"
  "DelayedSiacoinOutputDiffs (appliedBody pb cc) =
     DelayedSiacoinOutputDiffs cc @ pb_DelayedSiacoinOutputDiffs pb"
  "SiafundPoolDiffs (appliedBody pb cc) = SiafundPoolDiffs cc @ pb_SiafundPoolDiffs pb"
  by (simp_all add: appliedBody_def rangeAppend_map)

text \<open>A run of the loop that returns has read a record at every ID and folded the body
  over them.\<close>

lemma blockLoop_Inr:
  "blockLoop body DEBUG tx ids cc = Inr cc' \<Longrightarrow>
     cc' = foldl (\<lambda>c pb. body pb c) cc (fetchedBlocks tx ids)"
proof (induction ids arbitrary: cc)
  case Nil
  then show ?case by (simp add: fetchedBlocks_def)
next
  case (Cons blockID ids)
  from Cons.prems obtain pb where
    pb: "fst (getBlockMap tx blockID) = Some pb" and
    rest: "blockLoop body DEBUG tx ids (body pb cc) = Inr cc'"
    by (auto split: prod.splits if_splits option.splits)
  from Cons.IH [OF rest] pb show ?case by (simp add: fetchedBlocks_def)
qed

lemma blockLoop_present:
  "allPresent tx ids \<Longrightarrow>
     blockLoop body DEBUG tx ids cc = Inr (foldl (\<lambda>c pb. body pb c) cc (fetchedBlocks tx ids))"
proof (induction ids arbitrary: cc)
  case Nil
  then show ?case by (simp add: fetchedBlocks_def)
next
  case (Cons blockID ids)
  from Cons.prems obtain pb where
    pb: "getBlockMap tx blockID = (Some pb, None)" and rest: "allPresent tx ids"
    by (cases "getBlockMap tx blockID") (auto simp: allPresent_def)
  from Cons.IH [OF rest, of "body pb cc"] pb show ?case by (simp add: fetchedBlocks_def)
qed

lemma foldl_revertedBody:
  "RevertedBlocks (foldl (\<lambda>c pb. revertedBody pb c) cc pbs) = RevertedBlocks cc @ map pb_Block pbs"
  "AppliedBlocks (foldl (\<lambda>c pb. revertedBody pb c) cc pbs) = AppliedBlocks cc"
  "SiacoinOutputDiffs (foldl (\<lambda>c pb. revertedBody pb c) cc pbs) = SiacoinOutputDiffs cc @
     concat (map (\<lambda>pb. map (\<lambda>scod. scod\<lparr>scod_Direction := \<not> scod_Direction scod\<rparr>)
       (rev (pb_SiacoinOutputDiffs pb))) pbs)"
  "FileContractDiffs (foldl (\<lambda>c pb. revertedBody pb c) cc pbs) = FileContractDiffs cc @
     concat (map (\<lambda>pb. map (\<lambda>fcd. fcd\<lparr>fcd_Direction := \<not> fcd_Direction fcd\<rparr>)
       (rev (pb_FileContractDiffs pb))) pbs)"
  "SiafundOutputDiffs (foldl (\<lambda>c pb. revertedBody pb c) cc pbs) = SiafundOutputDiffs cc @
     concat (map (\<lambda>pb. map (\<lambda>sfod. sfod\<lparr>sfod_Direction := \<not> sfod_Direction sfod\<rparr>)
       (rev (pb_SiafundOutputDiffs pb))) pbs)"
  "DelayedSiacoinOutputDiffs (foldl (\<lambda>c pb. revertedBody pb c) cc pbs) =
     DelayedSiacoinOutputDiffs cc @
     concat (map (\<lambda>pb. map (\<lambda>dscod. dscod\<lparr>dscod_Direction := \<not> dscod_Direction dscod\<rparr>)
       (rev (pb_DelayedSiacoinOutputDiffs pb))) pbs)"
  "SiafundPoolDiffs (foldl (\<lambda>c pb. revertedBody pb c) cc pbs) = SiafundPoolDiffs cc @
     concat (map (\<lambda>pb. map (\<lambda>sfpd. sfpd\<lparr>sfpd_Direction := DiffRevert\<rparr>)
       (rev (pb_SiafundPoolDiffs pb))) pbs)"
  by (induction pbs arbitrary: cc; simp add: revertedBody_fields)+

lemma foldl_appliedBody:
  "RevertedBlocks (foldl (\<lambda>c pb. appliedBody pb c) cc pbs) = RevertedBlocks cc"
  "AppliedBlocks (foldl (\<lambda>c pb. appliedBody pb c) cc pbs) = AppliedBlocks cc @ map pb_Block pbs"
  "SiacoinOutputDiffs (foldl (\<lambda>c pb. appliedBody pb c) cc pbs) =
     SiacoinOutputDiffs cc @ concat (map pb_SiacoinOutputDiffs pbs)"
  "FileContractDiffs (foldl (\<lambda>c pb. appliedBody pb c) cc pbs) =
     FileContractDiffs cc @ concat (map pb_FileContractDiffs pbs)"
  "SiafundOutputDiffs (foldl (\<lambda>c pb. appliedBody pb c) cc pbs) =
     SiafundOutputDiffs cc @ concat (map pb_SiafundOutputDiffs pbs)"
  "DelayedSiacoinOutputDiffs (foldl (\<lambda>c pb. appliedBody pb c) cc pbs) =
     DelayedSiacoinOutputDiffs cc @ concat (map pb_DelayedSiacoinOutputDiffs pbs)"
  "SiafundPoolDiffs (foldl (\<lambda>c pb. appliedBody pb c) cc pbs) =
     SiafundPoolDiffs cc @ concat (map pb_SiafundPoolDiffs pbs)"
  by (induction pbs arbitrary: cc; simp add: appliedBody_fields)+

section \<open>What a returning call of computeConsensusChange has computed\<close>

lemma not_is_invertDirection: "(\<not> d) = invertDirection d"
  by (simp add: invertDirection_def DiffApply_def DiffRevert_def)

text \<open>An in-range call that returns has run both loops to their end and returns no
  error.\<close>

lemma computeConsensusChange_Inr:
  assumes "0 \<le> i" and "i < int (length (changeLog cs))"
    and "computeConsensusChange DEBUG cs tx i = Inr (cc, err)"
  shows "err = None"
    and "\<exists>ccR. blockLoop revertedBody DEBUG tx (revertedBlocks (changeLog cs ! nat i))
                  zeroConsensusChange = Inr ccR \<and>
               blockLoop appliedBody DEBUG tx (appliedBlocks (changeLog cs ! nat i)) ccR = Inr cc"
  using assms by (auto simp: computeConsensusChange_def split: sum.splits)

lemma computeConsensusChange_closed:
  assumes "0 \<le> i" and "i < int (length (changeLog cs))"
    and "computeConsensusChange DEBUG cs tx i = Inr (cc, err)"
  shows "cc = foldl (\<lambda>c pb. appliedBody pb c)
                (foldl (\<lambda>c pb. revertedBody pb c) zeroConsensusChange
                   (fetchedBlocks tx (revertedBlocks (changeLog cs ! nat i))))
                (fetchedBlocks tx (appliedBlocks (changeLog cs ! nat i)))"
proof -
  from computeConsensusChange_Inr(2) [OF assms] obtain ccR where
    r: "blockLoop revertedBody DEBUG tx (revertedBlocks (changeLog cs ! nat i))
          zeroConsensusChange = Inr ccR" and
    a: "blockLoop appliedBody DEBUG tx (appliedBlocks (changeLog cs ! nat i)) ccR = Inr cc"
    by blast
  from blockLoop_Inr [OF r] blockLoop_Inr [OF a] show ?thesis by simp
qed

lemma zero_fields:
  "RevertedBlocks zeroConsensusChange = []"
  "AppliedBlocks zeroConsensusChange = []"
  "SiacoinOutputDiffs zeroConsensusChange = []"
  "FileContractDiffs zeroConsensusChange = []"
  "SiafundOutputDiffs zeroConsensusChange = []"
  "DelayedSiacoinOutputDiffs zeroConsensusChange = []"
  "SiafundPoolDiffs zeroConsensusChange = []"
  by (simp_all add: zeroConsensusChange_def)

lemma example_run:
  "computeConsensusChange False exampleSet exampleTx 2 = Inr (exampleChange, None)"
  by (simp add: computeConsensusChange_def exampleSet_def exampleTx_def exampleBlock_def
      revertedBody_def appliedBody_def zeroConsensusChange_def exampleChange_def DiffRevert_def)

section \<open>Reverted blocks\<close>

text \<open>
  C1. For every reverted block processed by \<open>computeConsensusChange\<close>, the block's
  siafund pool diffs are appended to \<open>SiafundPoolDiffs\<close> in reverse of their stored
  order, each with its direction set to \<open>DiffRevert\<close> whatever the stored direction
  was. The first conjunct is one pass of the loop body; the second is the whole field of
  a returned change: the reverted blocks' pool diffs, reversed and forced to
  \<open>DiffRevert\<close>, followed by the applied blocks' pool diffs.
\<close>

theorem siafund_pool_diffs_reverted_to_Revert:
  assumes "0 \<le> i" and "i < int (length (changeLog cs))"
    and "computeConsensusChange DEBUG cs tx i = Inr (cc, err)"
  shows "SiafundPoolDiffs (revertedBody revertedBlock c) = SiafundPoolDiffs c @
           map (\<lambda>sfpd. sfpd\<lparr>sfpd_Direction := DiffRevert\<rparr>) (rev (pb_SiafundPoolDiffs revertedBlock))
         \<and> SiafundPoolDiffs cc =
           concat (map (\<lambda>pb. map (\<lambda>sfpd. sfpd\<lparr>sfpd_Direction := DiffRevert\<rparr>)
                                (rev (pb_SiafundPoolDiffs pb)))
                    (fetchedBlocks tx (revertedBlocks (changeLog cs ! nat i)))) @
           concat (map pb_SiafundPoolDiffs
                    (fetchedBlocks tx (appliedBlocks (changeLog cs ! nat i))))"
  by (simp add: computeConsensusChange_closed [OF assms] revertedBody_fields
      foldl_appliedBody foldl_revertedBody zero_fields)

theorem siafund_pool_diffs_reverted_to_Revert_witness:
  "(0::int) \<le> 2 \<and> 2 < int (length (changeLog exampleSet)) \<and>
   computeConsensusChange False exampleSet exampleTx 2 = Inr (exampleChange, None) \<and>
   SiafundPoolDiffs (revertedBody (exampleBlock 2) zeroConsensusChange) =
     [\<lparr>sfpd_Direction = DiffRevert, sfpd_fields = 101\<rparr>,
      \<lparr>sfpd_Direction = DiffRevert, sfpd_fields = 100\<rparr>] \<and>
   SiafundPoolDiffs exampleChange =
     [\<lparr>sfpd_Direction = DiffRevert, sfpd_fields = 101\<rparr>,
      \<lparr>sfpd_Direction = DiffRevert, sfpd_fields = 100\<rparr>,
      \<lparr>sfpd_Direction = True, sfpd_fields = 150\<rparr>, \<lparr>sfpd_Direction = False, sfpd_fields = 151\<rparr>,
      \<lparr>sfpd_Direction = True, sfpd_fields = 200\<rparr>, \<lparr>sfpd_Direction = False, sfpd_fields = 201\<rparr>]"
proof -
  have r: "(0::int) \<le> 2" by simp
  have l: "2 < int (length (changeLog exampleSet))" by (simp add: exampleSet_def)
  note h = example_run
  from siafund_pool_diffs_reverted_to_Revert [OF r l h, of "exampleBlock 2" zeroConsensusChange]
  show ?thesis using l h
    by (simp add: fetchedBlocks_def exampleSet_def exampleTx_def exampleBlock_def
        zeroConsensusChange_def)
qed

text \<open>
  C2. For every reverted block ID of the entry, \<open>computeConsensusChange\<close> appends the
  fetched block to \<open>RevertedBlocks\<close> and appends the block's siacoin output, file
  contract, siafund output and delayed siacoin output diffs to the corresponding
  sequences, each block's diffs in reverse of their stored order and each diff with its
  direction inverted. Stated for a returned change: its \<open>RevertedBlocks\<close> are the
  fetched blocks in the order of the entry, and each of the four sequences is the
  reverted blocks' contribution followed by the applied blocks' diffs.
\<close>

theorem reverted_blocks_reversed_and_inverted:
  assumes "0 \<le> i" and "i < int (length (changeLog cs))"
    and "computeConsensusChange DEBUG cs tx i = Inr (cc, err)"
  shows "RevertedBlocks cc =
           map pb_Block (fetchedBlocks tx (revertedBlocks (changeLog cs ! nat i)))
       \<and> SiacoinOutputDiffs cc =
           concat (map (\<lambda>pb. map (\<lambda>scod. scod\<lparr>scod_Direction := invertDirection (scod_Direction scod)\<rparr>)
                                (rev (pb_SiacoinOutputDiffs pb)))
                    (fetchedBlocks tx (revertedBlocks (changeLog cs ! nat i)))) @
           concat (map pb_SiacoinOutputDiffs
                    (fetchedBlocks tx (appliedBlocks (changeLog cs ! nat i))))
       \<and> FileContractDiffs cc =
           concat (map (\<lambda>pb. map (\<lambda>fcd. fcd\<lparr>fcd_Direction := invertDirection (fcd_Direction fcd)\<rparr>)
                                (rev (pb_FileContractDiffs pb)))
                    (fetchedBlocks tx (revertedBlocks (changeLog cs ! nat i)))) @
           concat (map pb_FileContractDiffs
                    (fetchedBlocks tx (appliedBlocks (changeLog cs ! nat i))))
       \<and> SiafundOutputDiffs cc =
           concat (map (\<lambda>pb. map (\<lambda>sfod. sfod\<lparr>sfod_Direction := invertDirection (sfod_Direction sfod)\<rparr>)
                                (rev (pb_SiafundOutputDiffs pb)))
                    (fetchedBlocks tx (revertedBlocks (changeLog cs ! nat i)))) @
           concat (map pb_SiafundOutputDiffs
                    (fetchedBlocks tx (appliedBlocks (changeLog cs ! nat i))))
       \<and> DelayedSiacoinOutputDiffs cc =
           concat (map (\<lambda>pb. map (\<lambda>dscod. dscod\<lparr>dscod_Direction := invertDirection (dscod_Direction dscod)\<rparr>)
                                (rev (pb_DelayedSiacoinOutputDiffs pb)))
                    (fetchedBlocks tx (revertedBlocks (changeLog cs ! nat i)))) @
           concat (map pb_DelayedSiacoinOutputDiffs
                    (fetchedBlocks tx (appliedBlocks (changeLog cs ! nat i))))"
  by (simp add: computeConsensusChange_closed [OF assms] not_is_invertDirection [symmetric]
      foldl_appliedBody foldl_revertedBody zero_fields)

theorem reverted_blocks_reversed_and_inverted_witness:
  "(0::int) \<le> 2 \<and> 2 < int (length (changeLog exampleSet)) \<and>
   computeConsensusChange False exampleSet exampleTx 2 = Inr (exampleChange, None) \<and>
   fetchedBlocks exampleTx (revertedBlocks (changeLog exampleSet ! nat 2)) = [exampleBlock 2] \<and>
   pb_SiacoinOutputDiffs (exampleBlock 2) =
     [\<lparr>scod_Direction = DiffApply, scod_fields = 20\<rparr>,
      \<lparr>scod_Direction = DiffRevert, scod_fields = 21\<rparr>] \<and>
   RevertedBlocks exampleChange = [pb_Block (exampleBlock 2)] \<and>
   take 2 (SiacoinOutputDiffs exampleChange) =
     [\<lparr>scod_Direction = DiffApply, scod_fields = 21\<rparr>,
      \<lparr>scod_Direction = DiffRevert, scod_fields = 20\<rparr>] \<and>
   take 1 (FileContractDiffs exampleChange) = [\<lparr>fcd_Direction = DiffRevert, fcd_fields = 40\<rparr>] \<and>
   take 1 (SiafundOutputDiffs exampleChange) = [\<lparr>sfod_Direction = DiffApply, sfod_fields = 60\<rparr>] \<and>
   take 1 (DelayedSiacoinOutputDiffs exampleChange) =
     [\<lparr>dscod_Direction = DiffRevert, dscod_fields = 80\<rparr>]"
proof -
  have r: "(0::int) \<le> 2" by simp
  have l: "2 < int (length (changeLog exampleSet))" by (simp add: exampleSet_def)
  note h = example_run
  from reverted_blocks_reversed_and_inverted [OF r l h]
  show ?thesis using l h
    by (simp add: fetchedBlocks_def exampleSet_def exampleTx_def exampleBlock_def
        invertDirection_def DiffApply_def DiffRevert_def)
qed

section \<open>Applied blocks\<close>

text \<open>
  C3. For every applied block ID of the entry, in the listed order,
  \<open>computeConsensusChange\<close> appends the block to \<open>AppliedBlocks\<close> and appends all
  five diff sequences in their stored order with the direction unchanged; and in every
  output sequence what the reverted blocks contributed comes before what the applied
  blocks contributed. Here \<open>ccR\<close> is the change as the loop over the reverted blocks
  leaves it: it holds no applied block, and each sequence of the result is the sequence
  of \<open>ccR\<close> followed by the applied blocks' stored diffs.
\<close>

theorem applied_blocks_in_order_after_reverted:
  assumes "0 \<le> i" and "i < int (length (changeLog cs))"
    and "computeConsensusChange DEBUG cs tx i = Inr (cc, err)"
  shows "\<exists>ccR. blockLoop revertedBody DEBUG tx (revertedBlocks (changeLog cs ! nat i))
                 zeroConsensusChange = Inr ccR
       \<and> AppliedBlocks ccR = []
       \<and> RevertedBlocks cc = RevertedBlocks ccR
       \<and> AppliedBlocks cc =
           map pb_Block (fetchedBlocks tx (appliedBlocks (changeLog cs ! nat i)))
       \<and> SiacoinOutputDiffs cc = SiacoinOutputDiffs ccR @
           concat (map pb_SiacoinOutputDiffs
                    (fetchedBlocks tx (appliedBlocks (changeLog cs ! nat i))))
       \<and> FileContractDiffs cc = FileContractDiffs ccR @
           concat (map pb_FileContractDiffs
                    (fetchedBlocks tx (appliedBlocks (changeLog cs ! nat i))))
       \<and> SiafundOutputDiffs cc = SiafundOutputDiffs ccR @
           concat (map pb_SiafundOutputDiffs
                    (fetchedBlocks tx (appliedBlocks (changeLog cs ! nat i))))
       \<and> DelayedSiacoinOutputDiffs cc = DelayedSiacoinOutputDiffs ccR @
           concat (map pb_DelayedSiacoinOutputDiffs
                    (fetchedBlocks tx (appliedBlocks (changeLog cs ! nat i))))
       \<and> SiafundPoolDiffs cc = SiafundPoolDiffs ccR @
           concat (map pb_SiafundPoolDiffs
                    (fetchedBlocks tx (appliedBlocks (changeLog cs ! nat i))))"
proof -
  from computeConsensusChange_Inr(2) [OF assms] obtain ccR where
    r: "blockLoop revertedBody DEBUG tx (revertedBlocks (changeLog cs ! nat i))
          zeroConsensusChange = Inr ccR" and
    a: "blockLoop appliedBody DEBUG tx (appliedBlocks (changeLog cs ! nat i)) ccR = Inr cc"
    by blast
  have "AppliedBlocks ccR = []"
    by (simp add: blockLoop_Inr [OF r] foldl_revertedBody zero_fields)
  with r show ?thesis
    by (simp add: blockLoop_Inr [OF a] foldl_appliedBody)
qed

theorem applied_blocks_in_order_after_reverted_witness:
  "(0::int) \<le> 2 \<and> 2 < int (length (changeLog exampleSet)) \<and>
   computeConsensusChange False exampleSet exampleTx 2 = Inr (exampleChange, None) \<and>
   (\<exists>ccR. blockLoop revertedBody False exampleTx [2] zeroConsensusChange = Inr ccR
      \<and> AppliedBlocks ccR = []
      \<and> RevertedBlocks exampleChange = RevertedBlocks ccR
      \<and> AppliedBlocks exampleChange = [pb_Block (exampleBlock 3), pb_Block (exampleBlock 4)]
      \<and> SiacoinOutputDiffs exampleChange = SiacoinOutputDiffs ccR @
           pb_SiacoinOutputDiffs (exampleBlock 3) @ pb_SiacoinOutputDiffs (exampleBlock 4)
      \<and> FileContractDiffs exampleChange = FileContractDiffs ccR @
           pb_FileContractDiffs (exampleBlock 3) @ pb_FileContractDiffs (exampleBlock 4)
      \<and> SiafundOutputDiffs exampleChange = SiafundOutputDiffs ccR @
           pb_SiafundOutputDiffs (exampleBlock 3) @ pb_SiafundOutputDiffs (exampleBlock 4)
      \<and> DelayedSiacoinOutputDiffs exampleChange = DelayedSiacoinOutputDiffs ccR @
           pb_DelayedSiacoinOutputDiffs (exampleBlock 3) @
           pb_DelayedSiacoinOutputDiffs (exampleBlock 4)
      \<and> SiafundPoolDiffs exampleChange = SiafundPoolDiffs ccR @
           pb_SiafundPoolDiffs (exampleBlock 3) @ pb_SiafundPoolDiffs (exampleBlock 4))"
proof -
  have r: "(0::int) \<le> 2" by simp
  have l: "2 < int (length (changeLog exampleSet))" by (simp add: exampleSet_def)
  note h = example_run
  have e: "changeLog exampleSet ! nat 2 = \<lparr>revertedBlocks = [2], appliedBlocks = [3, 4]\<rparr>"
    by (simp add: exampleSet_def)
  have f: "fetchedBlocks exampleTx [3, 4] = [exampleBlock 3, exampleBlock 4]"
    by (simp add: fetchedBlocks_def exampleTx_def)
  note c = applied_blocks_in_order_after_reverted [OF r l h]
  show ?thesis
    by (intro conjI r l h)
      (use c in \<open>simp only: e f changeEntry.select_convs list.map concat.simps append_Nil2\<close>)
qed

section \<open>Index bounds\<close>

lemma computeConsensusChange_out_of_range:
  "i < 0 \<or> i \<ge> int (length (changeLog cs)) \<Longrightarrow>
     computeConsensusChange DEBUG cs tx i =
       Inr (zeroConsensusChange, Some ''bounds error when querying changelog'')"
  by (simp add: computeConsensusChange_def)

lemma computeConsensusChange_present:
  assumes "0 \<le> i" and "i < int (length (changeLog cs))"
    and "allPresent tx (revertedBlocks (changeLog cs ! nat i) @ appliedBlocks (changeLog cs ! nat i))"
  shows "\<exists>cc. computeConsensusChange DEBUG cs tx i = Inr (cc, None)"
proof -
  from assms(3) have
    r: "allPresent tx (revertedBlocks (changeLog cs ! nat i))" and
    a: "allPresent tx (appliedBlocks (changeLog cs ! nat i))"
    by (simp_all add: allPresent_def)
  from assms(1,2) show ?thesis
    by (simp add: computeConsensusChange_def blockLoop_present [OF r] blockLoop_present [OF a])
qed

text \<open>The query hands on what \<open>computeConsensusChange\<close> gives on the database's
  snapshot: the change it substitutes on an error is the zero change the error came with.\<close>

lemma ConsensusChange_eq:
  "ConsensusChange DEBUG cs i = computeConsensusChange DEBUG cs (db cs) i"
proof (cases "i < 0 \<or> i \<ge> int (length (changeLog cs))")
  case True
  then show ?thesis
    by (simp add: ConsensusChange_def computeConsensusChange_out_of_range)
next
  case False
  then have r: "0 \<le> i" "i < int (length (changeLog cs))" by simp_all
  show ?thesis
  proof (cases "computeConsensusChange DEBUG cs (db cs) i")
    case (Inl p)
    then show ?thesis by (simp add: ConsensusChange_def)
  next
    case (Inr res)
    obtain cc err where res: "res = (cc, err)" by (cases res)
    with Inr computeConsensusChange_Inr(1) [OF r, of DEBUG "db cs" cc err]
    show ?thesis by (simp add: ConsensusChange_def)
  qed
qed

text \<open>
  C4. \<open>computeConsensusChange\<close> and the public query \<open>ConsensusChange\<close> return an
  error exactly when the index is negative or not below the length of the change log,
  and return a change with a nil error for every index in range, provided every block
  ID of the entry is present in the store. The error of an index out of range is the
  bounds error, and it comes with the zero change.
\<close>

theorem bounds_error_exactly_out_of_range:
  assumes "0 \<le> i \<and> i < int (length (changeLog cs)) \<longrightarrow>
     allPresent tx (revertedBlocks (changeLog cs ! nat i) @ appliedBlocks (changeLog cs ! nat i)) \<and>
     allPresent (db cs) (revertedBlocks (changeLog cs ! nat i) @ appliedBlocks (changeLog cs ! nat i))"
  shows "returnsError (computeConsensusChange DEBUG cs tx i) =
           (i < 0 \<or> i \<ge> int (length (changeLog cs)))
       \<and> succeeds (computeConsensusChange DEBUG cs tx i) =
           (0 \<le> i \<and> i < int (length (changeLog cs)))
       \<and> returnsError (ConsensusChange DEBUG cs i) =
           (i < 0 \<or> i \<ge> int (length (changeLog cs)))
       \<and> succeeds (ConsensusChange DEBUG cs i) =
           (0 \<le> i \<and> i < int (length (changeLog cs)))
       \<and> (i < 0 \<or> i \<ge> int (length (changeLog cs)) \<longrightarrow>
            computeConsensusChange DEBUG cs tx i =
              Inr (zeroConsensusChange, Some ''bounds error when querying changelog'') \<and>
            ConsensusChange DEBUG cs i =
              Inr (zeroConsensusChange, Some ''bounds error when querying changelog''))"
proof (cases "i < 0 \<or> i \<ge> int (length (changeLog cs))")
  case True
  then show ?thesis
    by (auto simp: ConsensusChange_eq computeConsensusChange_out_of_range
        returnsError_def succeeds_def)
next
  case False
  then have r: "0 \<le> i" "i < int (length (changeLog cs))" by simp_all
  with assms have
    p: "allPresent tx (revertedBlocks (changeLog cs ! nat i) @ appliedBlocks (changeLog cs ! nat i))" and
    q: "allPresent (db cs) (revertedBlocks (changeLog cs ! nat i) @ appliedBlocks (changeLog cs ! nat i))"
    by simp_all
  from computeConsensusChange_present [OF r p, of DEBUG]
    computeConsensusChange_present [OF r q, of DEBUG] r
  show ?thesis
    by (auto simp: ConsensusChange_eq returnsError_def succeeds_def)
qed

theorem bounds_error_exactly_out_of_range_witness:
  "allPresent exampleTx (revertedBlocks (changeLog exampleSet ! nat 2) @
                          appliedBlocks (changeLog exampleSet ! nat 2)) \<and>
   allPresent (db exampleSet) (revertedBlocks (changeLog exampleSet ! nat 2) @
                          appliedBlocks (changeLog exampleSet ! nat 2)) \<and>
   succeeds (computeConsensusChange True exampleSet exampleTx 2) \<and>
   succeeds (ConsensusChange True exampleSet 2) \<and>
   returnsError (computeConsensusChange True exampleSet exampleTx 3) \<and>
   returnsError (ConsensusChange True exampleSet (- 1))"
proof -
  have p: "allPresent exampleTx (revertedBlocks (changeLog exampleSet ! nat 2) @
                          appliedBlocks (changeLog exampleSet ! nat 2))"
    by (simp add: allPresent_def exampleSet_def exampleTx_def)
  have q: "allPresent (db exampleSet) (revertedBlocks (changeLog exampleSet ! nat 2) @
                          appliedBlocks (changeLog exampleSet ! nat 2))"
    by (simp add: allPresent_def exampleSet_def exampleTx_def)
  have l: "length (changeLog exampleSet) = 3" by (simp add: exampleSet_def)
  have "succeeds (computeConsensusChange True exampleSet exampleTx 2)"
    and "succeeds (ConsensusChange True exampleSet 2)"
    using bounds_error_exactly_out_of_range [of 2 exampleSet exampleTx True] p q l by simp_all
  moreover have "returnsError (computeConsensusChange True exampleSet exampleTx 3)"
    using bounds_error_exactly_out_of_range [of 3 exampleSet exampleTx True] l
    by (simp add: returnsError_def)
  moreover have "returnsError (ConsensusChange True exampleSet (- 1))"
    using bounds_error_exactly_out_of_range [of "- 1" exampleSet exampleTx True] l
    by (simp add: returnsError_def)
  ultimately show ?thesis using p q by simp
qed

section \<open>Lookup failures\<close>

lemma computeConsensusChange_in_range:
  "0 \<le> i \<Longrightarrow> i < int (length (changeLog cs)) \<Longrightarrow>
     computeConsensusChange DEBUG cs tx i =
       (case blockLoop revertedBody DEBUG tx (revertedBlocks (changeLog cs ! nat i))
               zeroConsensusChange of
          Inl p \<Rightarrow> Inl p
        | Inr cc \<Rightarrow>
           (case blockLoop appliedBody DEBUG tx (appliedBlocks (changeLog cs ! nat i)) cc of
              Inl p \<Rightarrow> Inl p
            | Inr cc' \<Rightarrow> Inr (cc', None)))"
  by (simp add: computeConsensusChange_def)








section \<open>Determinism\<close>

lemma blockLoop_agree:
  "\<forall>blockID \<in> set ids. getBlockMap tx blockID = getBlockMap tx' blockID \<Longrightarrow>
     blockLoop body DEBUG tx ids cc = blockLoop body DEBUG tx' ids cc"
  by (induction ids arbitrary: cc) (auto split: prod.splits option.splits)

text \<open>
  C9. For every index in range, \<open>computeConsensusChange\<close> is deterministic: two calls
  with the same index, the same entry at that index and the same store contents return
  equal results. The function's result is a function of its arguments alone, and of
  those only the entry at the index and what the store returns for the entry's block
  IDs matter: later appends to the log and other keys of the store do not.
\<close>

theorem computeConsensusChange_deterministic:
  assumes "0 \<le> i" and "i < int (length (changeLog cs))" and "i < int (length (changeLog cs'))"
    and "changeLog cs' ! nat i = changeLog cs ! nat i"
    and "\<forall>blockID \<in> set (revertedBlocks (changeLog cs ! nat i) @ appliedBlocks (changeLog cs ! nat i)).
           getBlockMap tx' blockID = getBlockMap tx blockID"
  shows "computeConsensusChange DEBUG cs' tx' i = computeConsensusChange DEBUG cs tx i"
proof -
  from assms(5) have
    r: "\<forall>blockID \<in> set (revertedBlocks (changeLog cs ! nat i)).
          getBlockMap tx' blockID = getBlockMap tx blockID" and
    a: "\<forall>blockID \<in> set (appliedBlocks (changeLog cs ! nat i)).
          getBlockMap tx' blockID = getBlockMap tx blockID"
    by simp_all
  show ?thesis
    unfolding computeConsensusChange_in_range [OF assms(1,2)]
      computeConsensusChange_in_range [OF assms(1,3)] assms(4)
    by (simp add: blockLoop_agree [OF r] blockLoop_agree [OF a] cong: sum.case_cong)
qed

theorem computeConsensusChange_deterministic_witness:
  "(0::int) \<le> 2 \<and> 2 < int (length (changeLog exampleSet)) \<and>
   2 < int (length (changeLog (exampleSet\<lparr>changeLog := changeLog exampleSet @ [\<lparr>revertedBlocks = [4], appliedBlocks = [9]\<rparr>]\<rparr>))) \<and>
   changeLog (exampleSet\<lparr>changeLog := changeLog exampleSet @ [\<lparr>revertedBlocks = [4], appliedBlocks = [9]\<rparr>]\<rparr>) ! nat 2
     = changeLog exampleSet ! nat 2 \<and>
   list_all (\<lambda>blockID. getBlockMap lenientTx blockID = getBlockMap exampleTx blockID)
     (revertedBlocks (changeLog exampleSet ! nat 2) @ appliedBlocks (changeLog exampleSet ! nat 2)) \<and>
   computeConsensusChange False
     (exampleSet\<lparr>changeLog := changeLog exampleSet @ [\<lparr>revertedBlocks = [4], appliedBlocks = [9]\<rparr>]\<rparr>)
     lenientTx 2 = computeConsensusChange False exampleSet exampleTx 2"
proof -
  let ?cs' = "exampleSet\<lparr>changeLog := changeLog exampleSet @ [\<lparr>revertedBlocks = [4], appliedBlocks = [9]\<rparr>]\<rparr>"
  have r: "(0::int) \<le> 2" by simp
  have l: "2 < int (length (changeLog exampleSet))" by (simp add: exampleSet_def)
  have l': "2 < int (length (changeLog ?cs'))" by (simp add: exampleSet_def)
  have e: "changeLog ?cs' ! nat 2 = changeLog exampleSet ! nat 2" by (simp add: exampleSet_def)
  have g: "list_all (\<lambda>blockID. getBlockMap lenientTx blockID = getBlockMap exampleTx blockID)
     (revertedBlocks (changeLog exampleSet ! nat 2) @ appliedBlocks (changeLog exampleSet ! nat 2))"
    by (simp add: exampleSet_def lenientTx_def exampleTx_def)
  then have g': "\<forall>blockID \<in> set (revertedBlocks (changeLog exampleSet ! nat 2) @
        appliedBlocks (changeLog exampleSet ! nat 2)).
      getBlockMap lenientTx blockID = getBlockMap exampleTx blockID"
    by (simp only: list_all_iff)
  from computeConsensusChange_deterministic [OF r l l' e g', of False]
  show ?thesis using r l l' e g by blast
qed

section \<open>Subscription\<close>

lemma computeConsensusChange_subscribers:
  "computeConsensusChange DEBUG (cs\<lparr>subscribers := ss\<rparr>) tx i = computeConsensusChange DEBUG cs tx i"
  by (simp add: computeConsensusChange_def cong: sum.case_cong)

lemma changeAt_Some:
  "changeAt DEBUG cs i \<noteq> None \<Longrightarrow>
     \<exists>err. computeConsensusChange DEBUG cs (db cs) (int i) = Inr (the (changeAt DEBUG cs i), err)"
  by (auto simp: changeAt_def split: sum.splits)

lemma backfillLoop_returns:
  assumes "\<forall>i \<in> set is. i < length (changeLog cs) \<and> changeAt DEBUG cs i \<noteq> None"
  shows "backfillLoop DEBUG cs (db cs) s is calls =
           (calls @ map (\<lambda>i. ProcessConsensusChange s (the (changeAt DEBUG cs i))) is, None)"
  using assms
proof (induction "is" arbitrary: calls)
  case Nil
  show ?case by simp
next
  case (Cons i "is")
  from Cons.prems have r: "0 \<le> int i" "int i < int (length (changeLog cs))"
    and c: "changeAt DEBUG cs i \<noteq> None"
    and rest: "\<forall>j \<in> set is. j < length (changeLog cs) \<and> changeAt DEBUG cs j \<noteq> None"
    by simp_all
  from changeAt_Some [OF c] obtain err where
    run: "computeConsensusChange DEBUG cs (db cs) (int i) = Inr (the (changeAt DEBUG cs i), err)" ..
  from computeConsensusChange_Inr(1) [OF r run] have "err = None" .
  with run Cons.IH [OF rest] show ?case by simp
qed

lemma example_changeAt:
  "changeAt False exampleSet 0 \<noteq> None"
  "changeAt False exampleSet 1 \<noteq> None"
  "changeAt False exampleSet 2 = Some exampleChange"
  by (simp_all add: changeAt_def computeConsensusChange_def exampleSet_def exampleTx_def
      exampleBlock_def revertedBody_def appliedBody_def zeroConsensusChange_def
      exampleChange_def DiffRevert_def)

text \<open>
  C6. \<open>ConsensusSetSubscribe\<close> first registers the subscriber and then, before
  returning, makes exactly one call of \<open>ProcessConsensusChange\<close> per index of the
  change log, in increasing order of the index, each with the change
  \<open>computeConsensusChange\<close> returns at that index; on an empty log it returns
  having made no call. The hypothesis is that \<open>computeConsensusChange\<close> returns at
  every index of the log.
\<close>

theorem subscribe_backfills_every_index:
  assumes "\<forall>i < length (changeLog cs). changeAt DEBUG cs i \<noteq> None"
  shows "ConsensusSetSubscribe DEBUG cs s =
           (cs\<lparr>subscribers := subscribers cs @ [s]\<rparr>,
            map (\<lambda>i. ProcessConsensusChange s (the (changeAt DEBUG cs i)))
              [0..<length (changeLog cs)],
            None)
       \<and> (changeLog cs = [] \<longrightarrow>
            ConsensusSetSubscribe DEBUG cs s = (cs\<lparr>subscribers := subscribers cs @ [s]\<rparr>, [], None))"
proof -
  let ?cs' = "cs\<lparr>subscribers := subscribers cs @ [s]\<rparr>"
  have same: "changeAt DEBUG ?cs' i = changeAt DEBUG cs i" for i
    by (simp add: changeAt_def computeConsensusChange_subscribers)
  from assms have "\<forall>i \<in> set [0..<length (changeLog ?cs')].
      i < length (changeLog ?cs') \<and> changeAt DEBUG ?cs' i \<noteq> None"
    by (simp add: same)
  from backfillLoop_returns [OF this, of s "[]"]
  have "backfillLoop DEBUG ?cs' (db ?cs') s [0..<length (changeLog ?cs')] [] =
      (map (\<lambda>i. ProcessConsensusChange s (the (changeAt DEBUG cs i))) [0..<length (changeLog cs)], None)"
    by (simp add: same)
  then have main: "ConsensusSetSubscribe DEBUG cs s =
      (?cs', map (\<lambda>i. ProcessConsensusChange s (the (changeAt DEBUG cs i)))
         [0..<length (changeLog cs)], None)"
    by (simp add: ConsensusSetSubscribe_def Let_def)
  then show ?thesis by auto
qed

theorem subscribe_backfills_every_index_witness:
  "changeAt False exampleSet 0 \<noteq> None \<and> changeAt False exampleSet 1 \<noteq> None \<and>
   changeAt False exampleSet 2 = Some exampleChange \<and>
   length (changeLog exampleSet) = 3 \<and>
   ConsensusSetSubscribe False exampleSet 5 =
     (exampleSet\<lparr>subscribers := subscribers exampleSet @ [5]\<rparr>,
      [ProcessConsensusChange 5 (the (changeAt False exampleSet 0)),
       ProcessConsensusChange 5 (the (changeAt False exampleSet 1)),
       ProcessConsensusChange 5 exampleChange],
      None) \<and>
   ConsensusSetSubscribe False (exampleSet\<lparr>changeLog := []\<rparr>) 5 =
     (exampleSet\<lparr>changeLog := [], subscribers := subscribers exampleSet @ [5]\<rparr>, [], None)"
proof -
  have l: "length (changeLog exampleSet) = 3" by (simp add: exampleSet_def)
  have u: "[0..<3] = [0, 1, 2]" by (simp add: upt_rec)
  note a = example_changeAt
  have h: "\<forall>i < length (changeLog exampleSet). changeAt False exampleSet i \<noteq> None"
  proof (intro allI impI)
    fix i assume "i < length (changeLog exampleSet)"
    with l have "i = 0 \<or> i = 1 \<or> i = 2" by arith
    with a show "changeAt False exampleSet i \<noteq> None" by auto
  qed
  have h0: "\<forall>i < length (changeLog (exampleSet\<lparr>changeLog := []\<rparr>)).
      changeAt False (exampleSet\<lparr>changeLog := []\<rparr>) i \<noteq> None"
    by simp
  have "ConsensusSetSubscribe False exampleSet 5 =
     (exampleSet\<lparr>subscribers := subscribers exampleSet @ [5]\<rparr>,
      [ProcessConsensusChange 5 (the (changeAt False exampleSet 0)),
       ProcessConsensusChange 5 (the (changeAt False exampleSet 1)),
       ProcessConsensusChange 5 exampleChange],
      None)"
    using subscribe_backfills_every_index [OF h, of 5] by (simp add: l u a(3))
  moreover have "ConsensusSetSubscribe False (exampleSet\<lparr>changeLog := []\<rparr>) 5 =
     (exampleSet\<lparr>changeLog := [], subscribers := subscribers exampleSet @ [5]\<rparr>, [], None)"
    using subscribe_backfills_every_index [OF h0, of 5] by simp
  ultimately show ?thesis using a l by blast
qed

section \<open>Digest subscription\<close>

lemma pathLoop_complete:
  "i \<le> Suc height \<Longrightarrow> \<forall>h. i \<le> h \<and> h \<le> height \<longrightarrow> snd (getPath tx h) = None \<Longrightarrow>
     pathLoop tx height i currentPath =
       Inr (currentPath @ map (\<lambda>h. fst (getPath tx h)) [i..<Suc height])"
proof (induction tx height i currentPath rule: pathLoop.induct)
  case (1 tx height i currentPath)
  show ?case
  proof (cases "i \<le> height")
    case False
    with "1.prems" have "i = Suc height" by simp
    then show ?thesis by (simp add: pathLoop.simps)
  next
    case True
    obtain blockID err where g: "getPath tx i = (blockID, err)" by (cases "getPath tx i")
    from "1.prems"(2) True g have e: "err = None" by auto
    have rest: "\<forall>h. Suc i \<le> h \<and> h \<le> height \<longrightarrow> snd (getPath tx h) = None"
      using "1.prems"(2) by simp
    from True have le: "Suc i \<le> Suc height" by simp
    have step: "pathLoop tx height (Suc i) (currentPath @ [blockID]) =
        Inr ((currentPath @ [blockID]) @ map (\<lambda>h. fst (getPath tx h)) [Suc i..<Suc height])"
      using "1.IH" [OF True g [symmetric] _ le rest] e by simp
    have u: "[i..<Suc height] = i # [Suc i..<Suc height]"
      using True by (simp add: upt_conv_Cons)
    have "pathLoop tx height i currentPath = pathLoop tx height (Suc i) (currentPath @ [blockID])"
      using True g e by (subst pathLoop.simps) simp
    with step u g show ?thesis by simp
  qed
qed

text \<open>
  C7. \<open>ConsensusSetDigestSubscribe\<close> registers the subscriber and then makes exactly
  one call \<open>ProcessConsensusDigest(nil, currentPath)\<close>, where \<open>currentPath\<close> is the
  sequence of the block IDs of the path at the heights 0 up to and including the current
  height, all read from the one snapshot; at height 0 it holds the ID at height 0 (the
  genesis block) alone. The hypothesis is that the path is defined at each of these
  heights: \<open>getPath\<close> reports no error there.
\<close>

theorem digest_subscribe_delivers_current_path:
  assumes "\<forall>h \<le> blockHeight (db cs). snd (getPath (db cs) h) = None"
  shows "ConsensusSetDigestSubscribe DEBUG cs s =
           (cs\<lparr>digestSubscribers := digestSubscribers cs @ [s]\<rparr>,
            [ProcessConsensusDigest s []
               (map (\<lambda>h. fst (getPath (db cs) h)) [0..<Suc (blockHeight (db cs))])],
            None)
       \<and> (blockHeight (db cs) = 0 \<longrightarrow>
            ConsensusSetDigestSubscribe DEBUG cs s =
              (cs\<lparr>digestSubscribers := digestSubscribers cs @ [s]\<rparr>,
               [ProcessConsensusDigest s [] [fst (getPath (db cs) 0)]],
               None))"
proof -
  from assms have "\<forall>h. 0 \<le> h \<and> h \<le> blockHeight (db cs) \<longrightarrow> snd (getPath (db cs) h) = None"
    by simp
  from pathLoop_complete [OF _ this, of "[]"]
  have "pathLoop (db cs) (blockHeight (db cs)) 0 [] =
      Inr (map (\<lambda>h. fst (getPath (db cs) h)) [0..<Suc (blockHeight (db cs))])"
    by simp
  then have main: "ConsensusSetDigestSubscribe DEBUG cs s =
           (cs\<lparr>digestSubscribers := digestSubscribers cs @ [s]\<rparr>,
            [ProcessConsensusDigest s []
               (map (\<lambda>h. fst (getPath (db cs) h)) [0..<Suc (blockHeight (db cs))])],
            None)"
    by (simp add: ConsensusSetDigestSubscribe_def Let_def)
  then show ?thesis by auto
qed

theorem digest_subscribe_delivers_current_path_witness:
  "snd (getPath (db exampleSet) 0) = None \<and> snd (getPath (db exampleSet) 1) = None \<and>
   snd (getPath (db exampleSet) 2) = None \<and> snd (getPath (db exampleSet) 3) = None \<and>
   blockHeight (db exampleSet) = 3 \<and>
   ConsensusSetDigestSubscribe True exampleSet 5 =
     (exampleSet\<lparr>digestSubscribers := digestSubscribers exampleSet @ [5]\<rparr>,
      [ProcessConsensusDigest 5 [] [0, 1, 3, 4]], None) \<and>
   blockHeight (db (exampleSet\<lparr>db := exampleTx\<lparr>blockHeight := 0\<rparr>\<rparr>)) = 0 \<and>
   ConsensusSetDigestSubscribe True (exampleSet\<lparr>db := exampleTx\<lparr>blockHeight := 0\<rparr>\<rparr>) 5 =
     (exampleSet\<lparr>db := exampleTx\<lparr>blockHeight := 0\<rparr>,
                  digestSubscribers := digestSubscribers exampleSet @ [5]\<rparr>,
      [ProcessConsensusDigest 5 [] [0]], None)"
proof -
  let ?genesis = "exampleSet\<lparr>db := exampleTx\<lparr>blockHeight := 0\<rparr>\<rparr>"
  have b: "blockHeight (db exampleSet) = 3" by (simp add: exampleSet_def exampleTx_def)
  have p: "snd (getPath (db exampleSet) 0) = None" "snd (getPath (db exampleSet) 1) = None"
    "snd (getPath (db exampleSet) 2) = None" "snd (getPath (db exampleSet) 3) = None"
    by (simp_all add: exampleSet_def exampleTx_def)
  have h: "\<forall>h \<le> blockHeight (db exampleSet). snd (getPath (db exampleSet) h) = None"
  proof (intro allI impI)
    fix h assume "h \<le> blockHeight (db exampleSet)"
    with b have "h = 0 \<or> h = 1 \<or> h = 2 \<or> h = 3" by arith
    with p show "snd (getPath (db exampleSet) h) = None" by auto
  qed
  have b0: "blockHeight (db ?genesis) = 0" by simp
  have h0: "\<forall>h \<le> blockHeight (db ?genesis). snd (getPath (db ?genesis) h) = None"
    by (simp add: exampleTx_def)
  have u: "[0..<Suc 3] = [0, 1, 2, 3]" by (simp add: upt_rec)
  have m: "map (\<lambda>h. fst (getPath (db exampleSet) h)) [0..<Suc (blockHeight (db exampleSet))] =
      [0, 1, 3, 4]"
    by (simp only: b u) (simp add: exampleSet_def exampleTx_def)
  have m0: "map (\<lambda>h. fst (getPath (db ?genesis) h)) [0..<Suc (blockHeight (db ?genesis))] = [0]"
    by (simp add: exampleTx_def)
  have "ConsensusSetDigestSubscribe True exampleSet 5 =
     (exampleSet\<lparr>digestSubscribers := digestSubscribers exampleSet @ [5]\<rparr>,
      [ProcessConsensusDigest 5 [] [0, 1, 3, 4]], None)"
    using digest_subscribe_delivers_current_path [OF h, of True 5]
    by (simp only: m)
  moreover have "ConsensusSetDigestSubscribe True ?genesis 5 =
     (exampleSet\<lparr>db := exampleTx\<lparr>blockHeight := 0\<rparr>,
                  digestSubscribers := digestSubscribers exampleSet @ [5]\<rparr>,
      [ProcessConsensusDigest 5 [] [0]], None)"
    using digest_subscribe_delivers_current_path [OF h0, of True 5]
    by (simp only: m0) simp
  ultimately show ?thesis using p b b0 by blast
qed

section \<open>Notification\<close>

text \<open>
  C8. On a notification pass, \<open>readlockUpdateSubscribers\<close> calls
  \<open>ProcessConsensusChange\<close> with the computed change on every full subscriber in
  registration order, and then \<open>ProcessConsensusDigest\<close> on every digest subscriber
  in registration order, with the IDs of the \<open>RevertedBlocks\<close> and of the
  \<open>AppliedBlocks\<close> of that same change, in the same order. The hypotheses say that
  the pass is not cut short by a panic: \<open>computeConsensusChange\<close> returns, and in a
  debug build it returns no error.
\<close>

theorem notifier_calls_in_registration_order:
  assumes "computeConsensusChange DEBUG cs (db cs) (int (length (changeLog cs)) - 1) = Inr (cc, err)"
    and "DEBUG \<longrightarrow> err = None"
  shows "readlockUpdateSubscribers DEBUG ID cs ce =
           (map (\<lambda>subscriber. ProcessConsensusChange subscriber cc) (subscribers cs) @
            map (\<lambda>ds. ProcessConsensusDigest ds (map ID (RevertedBlocks cc))
                                                 (map ID (AppliedBlocks cc)))
              (digestSubscribers cs),
            None)"
  using assms by (auto simp: readlockUpdateSubscribers_def rangeAppend_map)

theorem notifier_calls_in_registration_order_witness:
  "computeConsensusChange True exampleSet (db exampleSet) (int (length (changeLog exampleSet)) - 1)
     = Inr (exampleChange, None) \<and>
   readlockUpdateSubscribers True (\<lambda>b. 100 + b) exampleSet \<lparr>revertedBlocks = [2], appliedBlocks = [3, 4]\<rparr> =
     ([ProcessConsensusChange 7 exampleChange, ProcessConsensusChange 8 exampleChange,
       ProcessConsensusDigest 9 [102] [103, 104]], None)"
proof -
  have h: "computeConsensusChange True exampleSet (db exampleSet)
      (int (length (changeLog exampleSet)) - 1) = Inr (exampleChange, None)"
    by (simp add: computeConsensusChange_def exampleSet_def exampleTx_def exampleBlock_def
      revertedBody_def appliedBody_def zeroConsensusChange_def exampleChange_def DiffRevert_def)
  have n: "True \<longrightarrow> (None :: error option) = None" by simp
  have s: "subscribers exampleSet = [7, 8]" "digestSubscribers exampleSet = [9]"
    by (simp_all add: exampleSet_def)
  have c: "RevertedBlocks exampleChange = [2]" "AppliedBlocks exampleChange = [3, 4]"
    by (simp_all add: exampleChange_def)
  from notifier_calls_in_registration_order [OF h n, of "\<lambda>b. 100 + b"
      "\<lparr>revertedBlocks = [2], appliedBlocks = [3, 4]\<rparr>"]
  show ?thesis using h by (simp add: s c)
qed

text \<open>In range, the result is that of the entry at the index standing alone in a log.\<close>

lemma computeConsensusChange_entry:
  assumes "0 \<le> i" and "i < int (length (changeLog cs))"
  shows "computeConsensusChange DEBUG cs tx i =
           computeConsensusChange DEBUG (cs\<lparr>changeLog := [changeLog cs ! nat i]\<rparr>) tx 0"
proof -
  have z: "(0::int) \<le> 0" "0 < int (length (changeLog (cs\<lparr>changeLog := [changeLog cs ! nat i]\<rparr>)))"
    by simp_all
  show ?thesis
    unfolding computeConsensusChange_in_range [OF assms] computeConsensusChange_in_range [OF z]
    by (simp cong: sum.case_cong)
qed

text \<open>
  C10. \<open>readlockUpdateSubscribers\<close> ignores its \<open>changeEntry\<close> argument: whatever
  entry is passed, it computes and delivers the change at index
  \<open>len(cs.changeLog) - 1\<close>. On a log that is not empty this is the change of the last
  entry of the log, so what is delivered is the change of the entry passed in only when
  that entry is the last one of the log.
\<close>

theorem notifier_ignores_its_argument:
  "readlockUpdateSubscribers DEBUG ID cs ce = readlockUpdateSubscribers DEBUG ID cs ce'
   \<and> (changeLog cs \<noteq> [] \<longrightarrow>
        readlockUpdateSubscribers DEBUG ID cs ce =
          readlockUpdateSubscribers DEBUG ID (cs\<lparr>changeLog := [last (changeLog cs)]\<rparr>)
            (last (changeLog cs)))"
proof (intro conjI impI)
  show "readlockUpdateSubscribers DEBUG ID cs ce = readlockUpdateSubscribers DEBUG ID cs ce'"
    by (simp add: readlockUpdateSubscribers_def)
next
  assume ne: "changeLog cs \<noteq> []"
  let ?i = "int (length (changeLog cs)) - 1"
  from ne have r: "0 \<le> ?i" "?i < int (length (changeLog cs))"
    by (simp_all add: Suc_leI)
  from ne have "changeLog cs ! nat ?i = last (changeLog cs)"
    by (simp add: last_conv_nth nat_diff_distrib')
  with computeConsensusChange_entry [OF r, of DEBUG "db cs"]
  have eq: "computeConsensusChange DEBUG cs (db cs) ?i =
      computeConsensusChange DEBUG (cs\<lparr>changeLog := [last (changeLog cs)]\<rparr>) (db cs) 0"
    by simp
  show "readlockUpdateSubscribers DEBUG ID cs ce =
      readlockUpdateSubscribers DEBUG ID (cs\<lparr>changeLog := [last (changeLog cs)]\<rparr>)
        (last (changeLog cs))"
  proof (cases "computeConsensusChange DEBUG (cs\<lparr>changeLog := [last (changeLog cs)]\<rparr>) (db cs) 0")
    case (Inl p)
    with eq show ?thesis by (simp add: readlockUpdateSubscribers_def)
  next
    case (Inr res)
    obtain cc err where "res = (cc, err)" by (cases res)
    with eq Inr show ?thesis by (simp add: readlockUpdateSubscribers_def)
  qed
qed

theorem notifier_ignores_its_argument_witness:
  "changeLog exampleSet \<noteq> [] \<and>
   last (changeLog exampleSet) = \<lparr>revertedBlocks = [2], appliedBlocks = [3, 4]\<rparr> \<and>
   readlockUpdateSubscribers False (\<lambda>b. b) exampleSet \<lparr>revertedBlocks = [], appliedBlocks = [1]\<rparr> =
     readlockUpdateSubscribers False (\<lambda>b. b)
       (exampleSet\<lparr>changeLog := [\<lparr>revertedBlocks = [2], appliedBlocks = [3, 4]\<rparr>]\<rparr>)
       \<lparr>revertedBlocks = [2], appliedBlocks = [3, 4]\<rparr> \<and>
   readlockUpdateSubscribers False (\<lambda>b. b) exampleSet \<lparr>revertedBlocks = [], appliedBlocks = [1]\<rparr> =
     ([ProcessConsensusChange 7 exampleChange, ProcessConsensusChange 8 exampleChange,
       ProcessConsensusDigest 9 [2] [3, 4]], None)"
proof -
  have ne: "changeLog exampleSet \<noteq> []" by (simp add: exampleSet_def)
  have la: "last (changeLog exampleSet) = \<lparr>revertedBlocks = [2], appliedBlocks = [3, 4]\<rparr>"
    by (simp add: exampleSet_def)
  have v: "readlockUpdateSubscribers False (\<lambda>b. b)
       (exampleSet\<lparr>changeLog := [\<lparr>revertedBlocks = [2], appliedBlocks = [3, 4]\<rparr>]\<rparr>)
       \<lparr>revertedBlocks = [2], appliedBlocks = [3, 4]\<rparr> =
     ([ProcessConsensusChange 7 exampleChange, ProcessConsensusChange 8 exampleChange,
       ProcessConsensusDigest 9 [2] [3, 4]], None)"
    by (simp add: readlockUpdateSubscribers_def computeConsensusChange_def exampleSet_def
      exampleTx_def exampleBlock_def revertedBody_def appliedBody_def zeroConsensusChange_def
      exampleChange_def DiffRevert_def)
  from notifier_ignores_its_argument [of False "\<lambda>b. b" exampleSet
      "\<lparr>revertedBlocks = [], appliedBlocks = [1]\<rparr>" "\<lparr>revertedBlocks = [], appliedBlocks = [1]\<rparr>"] ne
  have "readlockUpdateSubscribers False (\<lambda>b. b) exampleSet \<lparr>revertedBlocks = [], appliedBlocks = [1]\<rparr> =
     readlockUpdateSubscribers False (\<lambda>b. b)
       (exampleSet\<lparr>changeLog := [last (changeLog exampleSet)]\<rparr>) (last (changeLog exampleSet))"
    by blast
  then have w: "readlockUpdateSubscribers False (\<lambda>b. b) exampleSet \<lparr>revertedBlocks = [], appliedBlocks = [1]\<rparr> =
     readlockUpdateSubscribers False (\<lambda>b. b)
       (exampleSet\<lparr>changeLog := [\<lparr>revertedBlocks = [2], appliedBlocks = [3, 4]\<rparr>]\<rparr>)
       \<lparr>revertedBlocks = [2], appliedBlocks = [3, 4]\<rparr>"
    by (simp only: la)
  from ne la w v show ?thesis by simp
qed

end
